theory Spec2Isabelle
  imports Main
begin

section \<open>Strings\<close>

text \<open>
  Source strings are modelled as \<open>string\<close>, one \<open>char\<close> per character, over ASCII.
  \<open>toUpperCase\<close> and \<open>toLowerCase\<close> map the 26 letters and leave every other
  ASCII character as it is; the class \<open>\s\<close> of the regular expression is, within ASCII,
  space, tab, line feed, vertical tab, form feed and carriage return.
\<close>

definition upper_letters :: string where
  "upper_letters = ''ABCDEFGHIJKLMNOPQRSTUVWXYZ''"

definition lower_letters :: string where
  "lower_letters = ''abcdefghijklmnopqrstuvwxyz''"

definition toUpperCase_char :: "char \<Rightarrow> char" where
  "toUpperCase_char c =
     (case map_of (zip lower_letters upper_letters) c of Some d \<Rightarrow> d | None \<Rightarrow> c)"

definition toLowerCase_char :: "char \<Rightarrow> char" where
  "toLowerCase_char c =
     (case map_of (zip upper_letters lower_letters) c of Some d \<Rightarrow> d | None \<Rightarrow> c)"

definition toUpperCase :: "string \<Rightarrow> string" where
  "toUpperCase s = map toUpperCase_char s"

definition toLowerCase :: "string \<Rightarrow> string" where
  "toLowerCase s = map toLowerCase_char s"

text \<open>\<open>Array.prototype.join\<close> on an array of strings.\<close>

fun join :: "string \<Rightarrow> string list \<Rightarrow> string" where
  "join sep [] = []"
| "join sep [x] = x"
| "join sep (x # y # ys) = x @ sep @ join sep (y # ys)"

section \<open>CommandHelp\<close>

text \<open>
  An argument descriptor (\<open>Config.Command['args'][0]\<close>): \<open>name\<close> is a string,
  \<open>required\<close> and \<open>hidden\<close> are optional booleans (\<open>None\<close> is \<open>undefined\<close>).
  The command given to the constructor has an optional array of them.
\<close>

record arg_descr =
  name :: string
  required :: "bool option"
  hidden :: "bool option"

record command =
  args :: "arg_descr list option"

text \<open>Truthiness of an optional boolean: \<open>undefined\<close> and \<open>false\<close> are falsy.\<close>

fun truthy :: "bool option \<Rightarrow> bool" where
  "truthy None = False"
| "truthy (Some b) = b"

text \<open>\<open>CommandHelp.arg\<close>: the upper-cased name, in square brackets unless required.\<close>

definition arg :: "arg_descr \<Rightarrow> string" where
  "arg a =
     (let nm = toUpperCase (name a) in
      if truthy (required a) then nm else ''['' @ nm @ '']'')"

text \<open>\<open>CommandHelp.compact\<close> on an array of strings: the empty string is falsy.\<close>

definition compact :: "string list \<Rightarrow> string list" where
  "compact array = filter (\<lambda>a. a \<noteq> []) array"

text \<open>\<open>CommandHelp.defaultUsage\<close>; \<open>this.command.args || []\<close> is the case on \<open>args\<close>.\<close>

definition defaultUsage :: "command \<Rightarrow> string" where
  "defaultUsage c =
     join '' ''
       (compact
         [join '' ''
            (map arg
              (filter (\<lambda>a. \<not> truthy (hidden a))
                 (case args c of None \<Rightarrow> [] | Some as \<Rightarrow> as)))])"

section \<open>CustomMain\<close>

text \<open>
  \<open>CustomMain._helpOverride\<close>. The inherited \<open>Main._helpOverride\<close> belongs to the
  framework and is a parameter, a predicate on \<open>argv\<close>. The result records, next to the
  returned boolean, whether the inherited method was called. \<open>this.argv[0]\<close> on an empty
  \<open>argv\<close> is \<open>undefined\<close>, which \<open>includes\<close> does not find.
\<close>

datatype help_decision = Skipped | Deferred

definition version_tokens :: "string list" where
  "version_tokens = [''-v'', ''--version'', ''version'']"

fun argv0_included :: "string list \<Rightarrow> bool" where
  "argv0_included [] = False"
| "argv0_included (a # _) = (a \<in> set version_tokens)"

definition helpOverride :: "(string list \<Rightarrow> bool) \<Rightarrow> string list \<Rightarrow> bool \<times> help_decision" where
  "helpOverride super_helpOverride argv =
     (if argv0_included argv then (False, Skipped)
      else (super_helpOverride argv, Deferred))"

section \<open>capitanoizeOclifUsage\<close>

text \<open>The argument is a string, an array of strings or \<open>undefined\<close>.\<close>

datatype oclif_usage = UsageString string | UsageArray "string list" | UsageUndefined

text \<open>
  \<open>(oclifUsage || '').toString()\<close>: \<open>undefined\<close> and the empty string are falsy and
  give the empty string; an array (always truthy) is joined with commas.
\<close>

fun usage_toString :: "oclif_usage \<Rightarrow> string" where
  "usage_toString UsageUndefined = []"
| "usage_toString (UsageString s) = s"
| "usage_toString (UsageArray xs) = join '','' xs"

definition is_space :: "char \<Rightarrow> bool" where
  "is_space c = (c \<in> set [CHR '' '', CHR 0x09, CHR 0x0A, CHR 0x0B, CHR 0x0C, CHR 0x0D])"

definition is_AZ :: "char \<Rightarrow> bool" where
  "is_AZ c = (c \<in> set upper_letters)"

text \<open>The lookbehind \<open>(?<=\s)\<close>: there is a character before the position, and it is a space.\<close>

fun lookbehind_space :: "char option \<Rightarrow> bool" where
  "lookbehind_space None = False"
| "lookbehind_space (Some c) = is_space c"

text \<open>The lookahead \<open>(?=(\s|$))\<close>: the rest is empty (no \<open>m\<close> flag) or starts with a space.\<close>

fun lookahead_space_or_end :: "string \<Rightarrow> bool" where
  "lookahead_space_or_end [] = True"
| "lookahead_space_or_end (c # _) = is_space c"

text \<open>
  \<open>.replace(/(?<=\s)[A-Z]+(?=(\s|$))/g, (match) => `<${match}>`)\<close>, scanning from the
  left with the character before the position in \<open>prev\<close>. \<open>[A-Z]+\<close> is greedy and takes
  the whole run of capitals; a shorter run is followed by a capital, where the lookahead
  fails, so backtracking finds nothing more. After a match the scan goes on behind it.
\<close>

function replace_tokens :: "char option \<Rightarrow> string \<Rightarrow> string" where
  "replace_tokens prev [] = []"
| "replace_tokens prev (c # cs) =
     (let run = takeWhile is_AZ (c # cs); rest = dropWhile is_AZ (c # cs) in
      if lookbehind_space prev \<and> run \<noteq> [] \<and> lookahead_space_or_end rest
      then ''<'' @ run @ ''>'' @ replace_tokens (Some (last run)) rest
      else c # replace_tokens (Some c) cs)"
  by pat_completeness auto
termination
proof (relation "measure (\<lambda>(prev, s). length s)")
  show "wf (measure (\<lambda>(prev, s). length s))" by simp
next
  fix prev :: "char option" and c :: char and cs x xa
  assume "x = takeWhile is_AZ (c # cs)" and "xa = dropWhile is_AZ (c # cs)"
    and "lookbehind_space prev \<and> x \<noteq> [] \<and> lookahead_space_or_end xa"
  then have "is_AZ c" by (auto split: if_splits)
  then have "xa = dropWhile is_AZ cs" using \<open>xa = dropWhile is_AZ (c # cs)\<close> by simp
  then have "length xa \<le> length cs" by (simp add: length_dropWhile_le)
  then show "((Some (last x), xa), (prev, c # cs)) \<in> measure (\<lambda>(prev, s). length s)"
    by simp
next
  fix prev :: "char option" and c :: char and cs x xa
  show "((Some c, cs), (prev, c # cs)) \<in> measure (\<lambda>(prev, s). length s)" by simp
qed

definition capitanoizeOclifUsage :: "oclif_usage \<Rightarrow> string" where
  "capitanoizeOclifUsage oclifUsage =
     toLowerCase (replace_tokens None (usage_toString oclifUsage))"

section \<open>Errors and JSON values\<close>

text \<open>
  The values the code throws. \<open>Error\<close>, \<open>ExpectedError\<close> and \<open>TypeError\<close> carry their
  message; \<open>SyntaxError\<close> is what \<open>JSON.parse\<close> throws; \<open>SystemError\<close> is an error of
  the file system with its \<open>code\<close> (\<open>ENOENT\<close>, \<open>EACCES\<close>, ...) and message. Only a
  \<open>SystemError\<close> has a \<open>code\<close> property.
\<close>

datatype js_error =
    Error string
  | ExpectedError string
  | TypeError string
  | SyntaxError string
  | SystemError string string

fun err_code :: "js_error \<Rightarrow> string option" where
  "err_code (SystemError c _) = Some c"
| "err_code _ = None"

text \<open>
  A parsed JSON value. An object is the list of its own properties in enumeration order,
  with distinct keys; a number is kept as its literal, no arithmetic is done on it.
\<close>

datatype json =
    JNull
  | JBool bool
  | JNum string
  | JStr string
  | JArr "json list"
  | JObj "(string \<times> json) list"

text \<open>Decimal notation of an array index, as \<open>Object.keys\<close> gives it.\<close>

definition digit_char :: "nat \<Rightarrow> char" where
  "digit_char d = ''0123456789'' ! d"

fun show_nat :: "nat \<Rightarrow> string" where
  "show_nat n = (if n < 10 then [digit_char n] else show_nat (n div 10) @ [digit_char (n mod 10)])"

text \<open>
  \<open>manifest.commands\<close>: reading a property of \<open>null\<close> throws a \<open>TypeError\<close> (the
  message is the engine's); an object gives the property's value or \<open>undefined\<close>
  (\<open>None\<close>); strings, numbers, booleans and arrays have no property of that name.
\<close>

fun get_commands :: "json \<Rightarrow> js_error + json option" where
  "get_commands JNull = Inl (TypeError ''Cannot read properties of null'')"
| "get_commands (JObj kvs) = Inr (map_of kvs ''commands'')"
| "get_commands _ = Inr None"

text \<open>
  \<open>Object.keys\<close> of a value that may be \<open>undefined\<close> (\<open>None\<close>): the keys of an object,
  the indices of an array or of a string, nothing for a number or a boolean, a
  \<open>TypeError\<close> for \<open>undefined\<close> and \<open>null\<close>.
\<close>

fun Object_keys :: "json option \<Rightarrow> js_error + string list" where
  "Object_keys None = Inl (TypeError ''Cannot convert undefined or null to object'')"
| "Object_keys (Some JNull) = Inl (TypeError ''Cannot convert undefined or null to object'')"
| "Object_keys (Some (JObj kvs)) = Inr (map fst kvs)"
| "Object_keys (Some (JArr xs)) = Inr (map show_nat [0..<length xs])"
| "Object_keys (Some (JStr s)) = Inr (map show_nat [0..<length s])"
| "Object_keys (Some (JNum _)) = Inr []"
| "Object_keys (Some (JBool _)) = Inr []"

text \<open>\<open>v == null\<close>: loose equality with \<open>null\<close> holds of \<open>undefined\<close> and of \<open>null\<close> only.\<close>

fun eq_null :: "json option \<Rightarrow> bool" where
  "eq_null None = True"
| "eq_null (Some JNull) = True"
| "eq_null (Some _) = False"

section \<open>The manifest reader\<close>

text \<open>
  \<open>fs.promises.readFile(path, 'utf8')\<close> and \<open>JSON.parse\<close> belong to the platform and are
  parameters. Reading gives the text or the error thrown; parsing gives the value or the
  message of the \<open>SyntaxError\<close> thrown, the only error \<open>JSON.parse\<close> throws on a string.
\<close>

record manifest_env =
  readFile :: "string \<Rightarrow> js_error + string"
  JSON_parse :: "string \<Rightarrow> string + json"

text \<open>The body of the \<open>try\<close> block: read, then parse.\<close>

definition read_manifest :: "manifest_env \<Rightarrow> js_error + json" where
  "read_manifest env =
     (case readFile env ''./oclif.manifest.json'' of
        Inl e \<Rightarrow> Inl e
      | Inr text \<Rightarrow>
          (case JSON_parse env text of
             Inl msg \<Rightarrow> Inl (SyntaxError msg)
           | Inr manifest \<Rightarrow> Inr manifest))"

text \<open>\<open>getCommandsFromManifest\<close>: the \<open>catch\<close> clause, then \<open>manifest.commands\<close> outside it.\<close>

definition getCommandsFromManifest :: "manifest_env \<Rightarrow> js_error + json option" where
  "getCommandsFromManifest env =
     (case read_manifest env of
        Inl e \<Rightarrow>
          if err_code e = Some ''ENOENT'' then Inl (Error ''Oclif manifest not found.'')
          else Inl e
      | Inr manifest \<Rightarrow> get_commands manifest)"

text \<open>\<open>getCommandIdsFromManifest\<close>.\<close>

definition getCommandIdsFromManifest :: "manifest_env \<Rightarrow> js_error + string list" where
  "getCommandIdsFromManifest env =
     (case getCommandsFromManifest env of
        Inl e \<Rightarrow> Inl e
      | Inr commands \<Rightarrow>
          if eq_null commands
          then Inl (Error ''Commands second not found in manifest.'')
          else Object_keys commands)"

section \<open>The logs command\<close>

text \<open>
  An awaited promise is fulfilled with a value, is rejected with an error, or stays
  pending: the code after the \<open>await\<close> runs in the first case only.
\<close>

datatype 'a outcome = Resolved 'a | Rejected js_error | Pending

text \<open>
  Modelled from the spec: the type \<open>LogMessage\<close> of the SDK, "a single log record with a
  timestamp, message text, an origin flag (system vs. service-attributed), and an optional
  service identifier".
\<close>

record log_message =
  message :: string
  timestamp :: nat
  isSystem :: bool
  serviceId :: "nat option"

text \<open>The command's parameters and options; \<open>service\<close> is one name or an array of names.\<close>

record params =
  uuidOrDevice :: string

datatype service_option = ServiceString string | ServiceArray "string list"

record options =
  tail :: "bool option"
  service :: "service_option option"
  system :: "bool option"

text \<open>
  What a log stream of the SDK emits: \<open>line\<close> events with a log entry and \<open>error\<close>
  events with an error. A stream is the list of the events it has emitted up to the moment
  of observation; every moment gives such a finite list.
\<close>

datatype stream_event = Line log_message | StreamError js_error

text \<open>
  The calls the command makes on its collaborators, in the order it makes them.
  \<open>LineHandler m\<close> is a call of the \<open>line\<close> handler, \<open>displayCloudLog\<close>, by the stream.
\<close>

datatype event =
    LogDebug string
  | Ping string
  | GetLogStream string
  | DisplayDeviceLogs bool "string list option"
  | CheckLoggedIn
  | Subscribe string nat
  | StreamOn string
  | LineHandler log_message
  | History string
  | ServiceIdToName "nat option"
  | DisplayLogObject "string option" log_message bool "string list option"

text \<open>
  The collaborators, none of them in this file, are parameters. \<open>normalizeUuidProp\<close>
  updates the parameters in place. \<open>ping\<close> and \<open>getLogStream\<close> are the methods of the
  \<open>DeviceAPI\<close> built for an address; \<open>'s\<close> is the type of a device's log stream.
  \<open>subscribe\<close> takes the identifier and the \<open>count\<close> option, \<open>serviceIdToName\<close> the
  service identifier of an entry.
\<close>

record 's logs_env =
  normalizeUuidProp :: "params \<Rightarrow> params"
  validateIPAddress :: "string \<Rightarrow> bool"
  validateDotLocalUrl :: "string \<Rightarrow> bool"
  ping :: "string \<Rightarrow> unit outcome"
  getLogStream :: "string \<Rightarrow> 's outcome"
  displayDeviceLogs :: "'s \<Rightarrow> bool \<Rightarrow> string list option \<Rightarrow> unit outcome"
  checkLoggedIn :: "unit outcome"
  subscribe :: "string \<Rightarrow> nat \<Rightarrow> stream_event list outcome"
  history :: "string \<Rightarrow> log_message list outcome"
  serviceIdToName :: "nat option \<Rightarrow> string option outcome"

text \<open>
  A step of the command is the calls it has made and the outcome of what it awaited;
  \<open>await\<close> runs the rest of the code on the value of a fulfilled promise and stops at a
  rejected or pending one.
\<close>

type_synonym 'a step = "event list \<times> 'a outcome"

definition await :: "'a step \<Rightarrow> ('a \<Rightarrow> 'b step) \<Rightarrow> 'b step" where
  "await s k =
     (case snd s of
        Resolved x \<Rightarrow> (fst s @ fst (k x), snd (k x))
      | Rejected e \<Rightarrow> (fst s, Rejected e)
      | Pending \<Rightarrow> (fst s, Pending))"

text \<open>\<open>servicesToDisplay\<close> and \<open>options.system || false\<close>.\<close>

definition servicesToDisplay :: "options \<Rightarrow> string list option" where
  "servicesToDisplay opts =
     (case service opts of
        None \<Rightarrow> None
      | Some (ServiceArray xs) \<Rightarrow> Some xs
      | Some (ServiceString x) \<Rightarrow> Some [x])"

definition system_or_false :: "options \<Rightarrow> bool" where
  "system_or_false opts = (case system opts of None \<Rightarrow> False | Some b \<Rightarrow> b)"

text \<open>
  \<open>displayCloudLog\<close>. The object given to \<open>displayLogObject\<close> is the entry, with a
  \<open>serviceName\<close> in front of its fields when the entry is not a system entry.
\<close>

definition displayCloudLog :: "'s logs_env \<Rightarrow> options \<Rightarrow> log_message \<Rightarrow> unit step" where
  "displayCloudLog env opts line =
     (if \<not> isSystem line then
        await ([ServiceIdToName (serviceId line)], serviceIdToName env (serviceId line))
          (\<lambda>resolved.
             let serviceName = (case resolved of None \<Rightarrow> ''Unknown service'' | Some n \<Rightarrow> n) in
             ([DisplayLogObject (Some serviceName) line (system_or_false opts)
                 (servicesToDisplay opts)], Resolved ()))
      else
        ([DisplayLogObject None line (system_or_false opts) (servicesToDisplay opts)],
         Resolved ()))"

text \<open>The loop over the history: each entry's display is awaited before the next.\<close>

fun display_each :: "'s logs_env \<Rightarrow> options \<Rightarrow> log_message list \<Rightarrow> unit step" where
  "display_each env opts [] = ([], Resolved ())"
| "display_each env opts (logMessage # rest) =
     await (displayCloudLog env opts logMessage) (\<lambda>_. display_each env opts rest)"

text \<open>
  The promise of the tail mode. Its executor installs \<open>displayCloudLog\<close> for \<open>line\<close> and
  \<open>reject\<close> for \<open>error\<close> and never calls \<open>resolve\<close>. \<open>reject\<close> settles a pending promise
  and does nothing to a settled one. A line handler's own promise is awaited by nobody.
\<close>

fun reject :: "unit outcome \<Rightarrow> js_error \<Rightarrow> unit outcome" where
  "reject Pending e = Rejected e"
| "reject p e = p"

fun on_event :: "unit step \<Rightarrow> stream_event \<Rightarrow> unit step" where
  "on_event (calls, p) (Line m) = (calls @ [LineHandler m], p)"
| "on_event (calls, p) (StreamError e) = (calls, reject p e)"

definition tail_promise :: "stream_event list \<Rightarrow> unit step" where
  "tail_promise emitted =
     foldl on_event ([StreamOn ''line'', StreamOn ''error''], Pending) emitted"

text \<open>The \<open>try\<close> around \<open>ping\<close>: every error becomes an \<open>ExpectedError\<close> with the address.\<close>

definition ping_or_throw :: "'s logs_env \<Rightarrow> string \<Rightarrow> unit step" where
  "ping_or_throw env address =
     ([Ping address],
      case ping env address of
        Rejected e \<Rightarrow>
          Rejected (ExpectedError (''Cannot access local mode device at address '' @ address))
      | r \<Rightarrow> r)"

text \<open>
  \<open>logs.action\<close>. The imports and the getters of the SDK and of the logger at its start
  call none of the collaborators above and are left out; \<open>new DeviceAPI\<close> binds the
  address that \<open>Ping\<close> and \<open>GetLogStream\<close> carry.
\<close>

definition action :: "'s logs_env \<Rightarrow> params \<Rightarrow> options \<Rightarrow> unit step" where
  "action env params0 opts =
     (let device = uuidOrDevice (normalizeUuidProp env params0) in
      if validateIPAddress env device \<or> validateDotLocalUrl env device then
        await ([LogDebug ''Checking we can access device''], Resolved ()) (\<lambda>_.
        await (ping_or_throw env device) (\<lambda>_.
        await ([GetLogStream device], getLogStream env device) (\<lambda>logStream.
          ([DisplayDeviceLogs (system_or_false opts) (servicesToDisplay opts)],
           displayDeviceLogs env logStream (system_or_false opts) (servicesToDisplay opts)))))
      else
        await ([CheckLoggedIn], checkLoggedIn env) (\<lambda>_.
          if truthy (tail opts) then
            await ([Subscribe device 100], subscribe env device 100) (\<lambda>logStream.
              tail_promise logStream)
          else
            await ([History device], history env device) (\<lambda>logMessages.
              display_each env opts logMessages)))"

section \<open>Observations on a run of the command\<close>

text \<open>The entries given to \<open>displayLogObject\<close>, and the devices whose history was fetched.\<close>

fun displayed :: "event list \<Rightarrow> log_message list" where
  "displayed [] = []"
| "displayed (DisplayLogObject _ m _ _ # evs) = m # displayed evs"
| "displayed (_ # evs) = displayed evs"

fun history_calls :: "event list \<Rightarrow> string list" where
  "history_calls [] = []"
| "history_calls (History d # evs) = d # history_calls evs"
| "history_calls (_ # evs) = history_calls evs"

section \<open>Example inputs\<close>

definition example_command :: command where
  "example_command =
     \<lparr>args = Some
        [\<lparr>name = ''name'', required = Some True, hidden = None\<rparr>,
         \<lparr>name = ''token'', required = None, hidden = Some True\<rparr>,
         \<lparr>name = ''value'', required = None, hidden = None\<rparr>]\<rparr>"

text \<open>Manifest texts and what \<open>JSON.parse\<close> makes of them.\<close>

definition text_null :: string where
  "text_null = ''null''"

definition text_no_commands :: string where
  \<open>text_no_commands = ''{"version":"12.3.0"}''\<close>

definition text_commands_null :: string where
  \<open>text_commands_null = ''{"commands":null}''\<close>

definition text_two_commands :: string where
  \<open>text_two_commands = ''{"commands":{"logs":{},"env add":{}}}''\<close>

definition example_parse :: "string \<Rightarrow> string + json" where
  "example_parse text =
     (if text = text_null then Inr JNull
      else if text = text_no_commands then Inr (JObj [(''version'', JStr ''12.3.0'')])
      else if text = text_commands_null then Inr (JObj [(''commands'', JNull)])
      else if text = text_two_commands then
        Inr (JObj [(''commands'', JObj [(''logs'', JObj []), (''env add'', JObj [])])])
      else Inl ''Unexpected token'')"

text \<open>A disk with the manifest holding the given text, and disks where reading fails.\<close>

definition manifest_file :: "string \<Rightarrow> manifest_env" where
  "manifest_file text =
     \<lparr>readFile = (\<lambda>path. if path = ''./oclif.manifest.json'' then Inr text
                         else Inl (SystemError ''ENOENT'' ''no such file or directory'')),
      JSON_parse = example_parse\<rparr>"

definition manifest_failing :: "js_error \<Rightarrow> manifest_env" where
  "manifest_failing e = \<lparr>readFile = (\<lambda>path. Inl e), JSON_parse = example_parse\<rparr>"

text \<open>Log entries: of a known service, of the system, of a service without a name.\<close>

definition line_main :: log_message where
  "line_main = \<lparr>message = ''listening'', timestamp = 1, isSystem = False, serviceId = Some 1\<rparr>"

definition line_system :: log_message where
  "line_system =
     \<lparr>message = ''Restarting service'', timestamp = 2, isSystem = True, serviceId = Some 1\<rparr>"

definition line_unknown :: log_message where
  "line_unknown = \<lparr>message = ''exited'', timestamp = 3, isSystem = False, serviceId = Some 9\<rparr>"

text \<open>
  Collaborators for the examples: one address of each local kind, the device at the IP
  address does not answer, the user is logged in, service 1 is called \<open>main\<close>.
\<close>

definition example_env :: "unit logs_env" where
  "example_env =
     \<lparr>normalizeUuidProp = (\<lambda>p. p),
      validateIPAddress = (\<lambda>s. s = ''192.168.0.31''),
      validateDotLocalUrl = (\<lambda>s. s = ''23c73a1.local''),
      ping = (\<lambda>a. if a = ''192.168.0.31'' then Rejected (SystemError ''ETIMEDOUT'' ''connect'')
                   else Resolved ()),
      getLogStream = (\<lambda>a. Resolved ()),
      displayDeviceLogs = (\<lambda>stream sys services. Pending),
      checkLoggedIn = Resolved (),
      subscribe = (\<lambda>d n. Resolved
        [Line line_main, StreamError (Error ''socket hang up''), Line line_system]),
      history = (\<lambda>d. Resolved [line_main, line_system, line_unknown]),
      serviceIdToName = (\<lambda>sid. Resolved (if sid = Some 1 then Some ''main'' else None))\<rparr>"

definition logged_out_env :: "unit logs_env" where
  "logged_out_env = example_env\<lparr>checkLoggedIn := Rejected (ExpectedError ''Login required'')\<rparr>"

text \<open>
  The same with a history fetch that fails, with one that never answers, and with no name
  service for service 9.
\<close>

definition history_down_env :: "unit logs_env" where
  "history_down_env = example_env\<lparr>history := (\<lambda>d. Rejected (Error ''Request error''))\<rparr>"

definition history_stalled_env :: "unit logs_env" where
  "history_stalled_env = example_env\<lparr>history := (\<lambda>d. Pending)\<rparr>"

definition names_down_env :: "unit logs_env" where
  "names_down_env =
     example_env\<lparr>serviceIdToName :=
       (\<lambda>sid. if sid = Some 9 then Rejected (Error ''Request error'')
              else Resolved (Some ''main''))\<rparr>"

definition no_options :: options where
  "no_options = \<lparr>tail = None, service = None, system = None\<rparr>"

definition tail_options :: options where
  "tail_options = \<lparr>tail = Some True, service = None, system = None\<rparr>"

section \<open>Unfolding the examples\<close>

lemmas letter_defs = upper_letters_def lower_letters_def toUpperCase_def toUpperCase_char_def
  toLowerCase_def toLowerCase_char_def is_AZ_def is_space_def

lemmas manifest_examples = manifest_file_def manifest_failing_def example_parse_def
  text_null_def text_no_commands_def text_commands_null_def text_two_commands_def

lemmas manifest_defs = getCommandIdsFromManifest_def getCommandsFromManifest_def
  read_manifest_def

lemmas line_examples = line_main_def line_system_def line_unknown_def

lemmas option_defs = no_options_def tail_options_def system_or_false_def servicesToDisplay_def

section \<open>The usage formatter\<close>

text \<open>
  C1, as the code has it. \<open>defaultUsage\<close> renders a required argument as its upper-cased
  name with nothing around it, \<open>NAME\<close>, and an optional one as \<open>[NAME]\<close>; it joins them
  with single spaces in the order of the input and leaves out every hidden argument.
  Neither form has angle brackets: those are put in later, by \<open>capitanoizeOclifUsage\<close>.
\<close>

theorem defaultUsage_renders_args:
  "defaultUsage c =
     join '' ''
       (map (\<lambda>a. if truthy (required a) then toUpperCase (name a)
                 else ''['' @ toUpperCase (name a) @ '']'')
          (filter (\<lambda>a. \<not> truthy (hidden a))
             (case args c of None \<Rightarrow> [] | Some as \<Rightarrow> as)))"
  by (simp add: defaultUsage_def compact_def arg_def Let_def cong: map_cong)

text \<open>
  A required \<open>name\<close>, a hidden \<open>token\<close> and an optional \<open>value\<close> give \<open>NAME [VALUE]\<close>,
  not \<open><NAME> [<VALUE>]\<close>.
\<close>

theorem defaultUsage_no_angle_brackets:
  "defaultUsage example_command = ''NAME [VALUE]'' \<and>
   defaultUsage example_command \<noteq> ''<NAME> [<VALUE>]''"
  by (simp add: defaultUsage_def compact_def arg_def example_command_def letter_defs)

section \<open>The help override\<close>

text \<open>
  C9. \<open>_helpOverride\<close> returns false without asking the framework exactly when \<open>argv\<close>
  has a first argument and it is \<open>-v\<close>, \<open>--version\<close> or \<open>version\<close>; in every other case
  it asks the framework and returns what the framework's \<open>_helpOverride\<close> returns.
\<close>

theorem helpOverride_version_tokens:
  "(helpOverride super argv = (False, Skipped) \<longleftrightarrow>
      (\<exists>a rest. argv = a # rest \<and> (a = ''-v'' \<or> a = ''--version'' \<or> a = ''version''))) \<and>
   (helpOverride super argv = (super argv, Deferred) \<longleftrightarrow>
      \<not> (\<exists>a rest. argv = a # rest \<and> (a = ''-v'' \<or> a = ''--version'' \<or> a = ''version'')))"
  by (cases argv) (auto simp: helpOverride_def version_tokens_def)

section \<open>The conversion of a usage string\<close>

text \<open>
  C4, as the code has it. On \<open>ENV ADD NAME [VALUE]\<close> the result is
  \<open>env <add> <name> [value]\<close>: every run of capitals between white space, or between
  white space and the end, is wrapped, \<open>ADD\<close> as well as \<open>NAME\<close>; \<open>ENV\<close> has no white space
  before it and \<open>VALUE\<close> stands in brackets. The result \<open>env add <name> [value]\<close> is that
  of the input \<open>env add NAME [VALUE]\<close>.
\<close>

theorem capitanoizeOclifUsage_examples:
  "capitanoizeOclifUsage (UsageString ''ENV ADD NAME [VALUE]'') = ''env <add> <name> [value]'' \<and>
   capitanoizeOclifUsage (UsageString ''env add NAME [VALUE]'') = ''env add <name> [value]''"
  by (simp add: capitanoizeOclifUsage_def letter_defs)

theorem capitanoizeOclifUsage_uppercase_input:
  "capitanoizeOclifUsage (UsageString ''ENV ADD NAME [VALUE]'') \<noteq> ''env add <name> [value]''"
  by (simp add: capitanoizeOclifUsage_def letter_defs)

section \<open>The manifest reader's errors\<close>

text \<open>
  C7. When reading the manifest fails with the code \<open>ENOENT\<close>, \<open>getCommandsFromManifest\<close>
  fails with the error \<open>Oclif manifest not found.\<close>; a read error with another code or
  none, and the syntax error of a text that does not parse, reach the caller as they are.
\<close>

theorem getCommandsFromManifest_errors:
  "(readFile env ''./oclif.manifest.json'' = Inl (SystemError ''ENOENT'' msg) \<longrightarrow>
      getCommandsFromManifest env = Inl (Error ''Oclif manifest not found.'')) \<and>
   (readFile env ''./oclif.manifest.json'' = Inl e \<and> err_code e \<noteq> Some ''ENOENT'' \<longrightarrow>
      getCommandsFromManifest env = Inl e) \<and>
   (readFile env ''./oclif.manifest.json'' = Inr contents \<and> JSON_parse env contents = Inl msg' \<longrightarrow>
      getCommandsFromManifest env = Inl (SyntaxError msg'))"
  by (simp add: getCommandsFromManifest_def read_manifest_def)

theorem getCommandsFromManifest_errors_witness:
  "getCommandsFromManifest (manifest_failing (SystemError ''ENOENT'' ''no such file''))
     = Inl (Error ''Oclif manifest not found.'') \<and>
   getCommandsFromManifest (manifest_failing (SystemError ''EACCES'' ''permission denied''))
     = Inl (SystemError ''EACCES'' ''permission denied'') \<and>
   getCommandsFromManifest (manifest_file ''{'') = Inl (SyntaxError ''Unexpected token'')"
proof -
  have absent: "readFile (manifest_failing (SystemError ''ENOENT'' ''no such file''))
      ''./oclif.manifest.json'' = Inl (SystemError ''ENOENT'' ''no such file'')"
    by (simp add: manifest_failing_def)
  have denied: "readFile (manifest_failing (SystemError ''EACCES'' ''permission denied''))
      ''./oclif.manifest.json'' = Inl (SystemError ''EACCES'' ''permission denied'') \<and>
      err_code (SystemError ''EACCES'' ''permission denied'') \<noteq> Some ''ENOENT''"
    by (simp add: manifest_failing_def)
  have broken: "readFile (manifest_file ''{'') ''./oclif.manifest.json'' = Inr ''{'' \<and>
      JSON_parse (manifest_file ''{'') ''{'' = Inl ''Unexpected token''"
    by (simp add: manifest_examples)
  show ?thesis
    using absent denied broken
      getCommandsFromManifest_errors
        [where env = "manifest_failing (SystemError ''ENOENT'' ''no such file'')"
           and msg = "''no such file''"]
      getCommandsFromManifest_errors
        [where env = "manifest_failing (SystemError ''EACCES'' ''permission denied'')"
           and e = "SystemError ''EACCES'' ''permission denied''"]
      getCommandsFromManifest_errors
        [where env = "manifest_file ''{''" and contents = "''{''" and msg' = "''Unexpected token''"]
    by blast
qed

section \<open>The command names of a manifest\<close>

lemma Object_keys_not_null: "\<not> eq_null v \<Longrightarrow> \<exists>ks. Object_keys v = Inr ks"
  by (cases v rule: Object_keys.cases) simp_all

lemma eq_null_iff: "eq_null v \<longleftrightarrow> v = None \<or> v = Some JNull"
  by (cases v rule: eq_null.cases) simp_all

text \<open>
  C6, as the code has it. For a manifest that parses to an object,
  \<open>getCommandIdsFromManifest\<close> fails with the error \<open>Commands second not found in manifest.\<close>
  exactly when the object has no \<open>commands\<close> field or has one whose value is \<open>null\<close>; when
  the field holds an object, the result is the list of that object's keys.
\<close>

theorem getCommandIdsFromManifest_object:
  assumes "readFile env ''./oclif.manifest.json'' = Inr contents"
    and "JSON_parse env contents = Inr (JObj kvs)"
  shows "(getCommandIdsFromManifest env = Inl (Error ''Commands second not found in manifest.'')
            \<longleftrightarrow> map_of kvs ''commands'' = None \<or> map_of kvs ''commands'' = Some JNull) \<and>
         (\<forall>cmds. map_of kvs ''commands'' = Some (JObj cmds) \<longrightarrow>
            getCommandIdsFromManifest env = Inr (map fst cmds))"
proof -
  have cmds: "getCommandsFromManifest env = Inr (map_of kvs ''commands'')"
    using assms by (simp add: getCommandsFromManifest_def read_manifest_def)
  show ?thesis
  proof (cases "eq_null (map_of kvs ''commands'')")
    case True
    then show ?thesis
      using cmds by (auto simp: getCommandIdsFromManifest_def eq_null_iff)
  next
    case False
    then obtain ks where "Object_keys (map_of kvs ''commands'') = Inr ks"
      using Object_keys_not_null by blast
    then show ?thesis
      using False cmds by (auto simp: getCommandIdsFromManifest_def eq_null_iff)
  qed
qed

theorem getCommandIdsFromManifest_object_witness:
  "getCommandIdsFromManifest (manifest_file text_two_commands) = Inr [''logs'', ''env add''] \<and>
   getCommandIdsFromManifest (manifest_file text_no_commands)
     = Inl (Error ''Commands second not found in manifest.'')"
proof -
  have two: "readFile (manifest_file text_two_commands) ''./oclif.manifest.json''
      = Inr text_two_commands"
    "JSON_parse (manifest_file text_two_commands) text_two_commands
      = Inr (JObj [(''commands'', JObj [(''logs'', JObj []), (''env add'', JObj [])])])"
    by (simp_all add: manifest_examples)
  have none: "readFile (manifest_file text_no_commands) ''./oclif.manifest.json''
      = Inr text_no_commands"
    "JSON_parse (manifest_file text_no_commands) text_no_commands
      = Inr (JObj [(''version'', JStr ''12.3.0'')])"
    by (simp_all add: manifest_examples)
  show ?thesis
    using getCommandIdsFromManifest_object [OF two] getCommandIdsFromManifest_object [OF none]
    by simp
qed

text \<open>A manifest with the field, holding \<open>null\<close>: the same error as for a missing field.\<close>

theorem getCommandIdsFromManifest_commands_null:
  "read_manifest (manifest_file text_commands_null) = Inr (JObj [(''commands'', JNull)]) \<and>
   getCommandIdsFromManifest (manifest_file text_commands_null)
     = Inl (Error ''Commands second not found in manifest.'')"
  by (simp add: manifest_defs manifest_examples)

text \<open>
  C10, as the code has it. When the manifest parses to a value other than \<open>null\<close> that has
  no \<open>commands\<close> field (an object without the key, or an array, string, number or
  boolean), \<open>getCommandsFromManifest\<close> succeeds with \<open>undefined\<close>, and it is
  \<open>getCommandIdsFromManifest\<close> that fails, with the error of the missing section.
\<close>

theorem getCommandsFromManifest_no_commands_field:
  assumes "readFile env ''./oclif.manifest.json'' = Inr contents"
    and "JSON_parse env contents = Inr manifest"
    and "manifest \<noteq> JNull"
    and "\<forall>kvs. manifest = JObj kvs \<longrightarrow> ''commands'' \<notin> fst ` set kvs"
  shows "getCommandsFromManifest env = Inr None \<and>
         getCommandIdsFromManifest env = Inl (Error ''Commands second not found in manifest.'')"
proof -
  have "get_commands manifest = Inr None"
    using assms(3,4) by (cases manifest) (simp_all add: map_of_eq_None_iff)
  then have "getCommandsFromManifest env = Inr None"
    using assms(1,2) by (simp add: getCommandsFromManifest_def read_manifest_def)
  then show ?thesis by (simp add: getCommandIdsFromManifest_def)
qed

theorem getCommandsFromManifest_no_commands_field_witness:
  "getCommandsFromManifest (manifest_file text_no_commands) = Inr None \<and>
   getCommandIdsFromManifest (manifest_file text_no_commands)
     = Inl (Error ''Commands second not found in manifest.'')"
proof -
  have rd: "readFile (manifest_file text_no_commands) ''./oclif.manifest.json''
      = Inr text_no_commands"
    by (simp add: manifest_examples)
  have parsed: "JSON_parse (manifest_file text_no_commands) text_no_commands
      = Inr (JObj [(''version'', JStr ''12.3.0'')])"
    by (simp add: manifest_examples)
  have not_null: "JObj [(''version'', JStr ''12.3.0'')] \<noteq> JNull"
    by simp
  have no_field: "\<forall>kvs. JObj [(''version'', JStr ''12.3.0'')] = JObj kvs
      \<longrightarrow> ''commands'' \<notin> fst ` set kvs"
    by auto
  show ?thesis
    using getCommandsFromManifest_no_commands_field [OF rd parsed not_null no_field] .
qed

text \<open>The manifest text \<open>null\<close> parses and has no field; reading its property throws.\<close>

theorem getCommandsFromManifest_null_manifest:
  "read_manifest (manifest_file text_null) = Inr JNull \<and>
   getCommandsFromManifest (manifest_file text_null)
     = Inl (TypeError ''Cannot read properties of null'')"
  by (simp add: manifest_defs manifest_examples)

section \<open>The display of one cloud entry\<close>

lemma displayCloudLog_system:
  "isSystem line \<Longrightarrow> displayCloudLog env opts line =
     ([DisplayLogObject None line (system_or_false opts) (servicesToDisplay opts)], Resolved ())"
  by (simp add: displayCloudLog_def)

lemma displayCloudLog_service:
  "\<not> isSystem line \<Longrightarrow> serviceIdToName env (serviceId line) = Resolved r \<Longrightarrow>
   displayCloudLog env opts line =
     ([ServiceIdToName (serviceId line),
       DisplayLogObject (Some (case r of None \<Rightarrow> ''Unknown service'' | Some n \<Rightarrow> n)) line
         (system_or_false opts) (servicesToDisplay opts)], Resolved ())"
  by (simp add: displayCloudLog_def await_def)

text \<open>
  C8, as the code has it. For an entry that is not a system entry, \<open>displayCloudLog\<close>
  resolves the service identifier and gives the entry to \<open>displayLogObject\<close> with the name
  found, or with \<open>Unknown service\<close> when the resolution gives no name. A system entry
  goes to \<open>displayLogObject\<close> as it is: its identifier is not resolved and no name is added.
\<close>

theorem displayCloudLog_service_name:
  "(\<not> isSystem line \<and> serviceIdToName env (serviceId line) = Resolved (Some n) \<longrightarrow>
      displayCloudLog env opts line =
        ([ServiceIdToName (serviceId line),
          DisplayLogObject (Some n) line (system_or_false opts) (servicesToDisplay opts)],
         Resolved ())) \<and>
   (\<not> isSystem line \<and> serviceIdToName env (serviceId line) = Resolved None \<longrightarrow>
      displayCloudLog env opts line =
        ([ServiceIdToName (serviceId line),
          DisplayLogObject (Some ''Unknown service'') line (system_or_false opts)
            (servicesToDisplay opts)],
         Resolved ())) \<and>
   (isSystem line \<longrightarrow>
      displayCloudLog env opts line =
        ([DisplayLogObject None line (system_or_false opts) (servicesToDisplay opts)],
         Resolved ()))"
  by (simp add: displayCloudLog_system displayCloudLog_service)

theorem displayCloudLog_service_name_witness:
  "displayCloudLog example_env no_options line_main =
     ([ServiceIdToName (Some 1), DisplayLogObject (Some ''main'') line_main False None],
      Resolved ()) \<and>
   displayCloudLog example_env no_options line_unknown =
     ([ServiceIdToName (Some 9), DisplayLogObject (Some ''Unknown service'') line_unknown False None],
      Resolved ())"
proof -
  have main: "\<not> isSystem line_main \<and>
      serviceIdToName example_env (serviceId line_main) = Resolved (Some ''main'')"
    by (simp add: line_examples example_env_def)
  have unknown: "\<not> isSystem line_unknown \<and>
      serviceIdToName example_env (serviceId line_unknown) = Resolved None"
    by (simp add: line_examples example_env_def)
  have ids: "serviceId line_main = Some 1" "serviceId line_unknown = Some 9"
    by (simp_all add: line_examples)
  have opts: "system_or_false no_options = False" "servicesToDisplay no_options = None"
    by (simp_all add: option_defs)
  show ?thesis
    using main unknown
      displayCloudLog_service_name
        [where env = example_env and line = line_main and n = "''main''" and opts = no_options]
      displayCloudLog_service_name
        [where env = example_env and line = line_unknown and opts = no_options]
    by (simp add: ids opts)
qed

text \<open>
  A system entry with the identifier of service 1, which would resolve to \<open>main\<close>: no
  resolution is made and the formatter gets the entry without a name.
\<close>

theorem displayCloudLog_system_entry:
  "serviceId line_system = Some 1 \<and>
   serviceIdToName example_env (Some 1) = Resolved (Some ''main'') \<and>
   displayCloudLog example_env no_options line_system =
     ([DisplayLogObject None line_system False None], Resolved ())"
  by (simp add: displayCloudLog_def line_examples example_env_def option_defs)

section \<open>The local device path\<close>

text \<open>
  C2. Let \<open>device\<close> be the identifier the command reads after \<open>normalizeUuidProp\<close>. When
  \<open>validateIPAddress\<close> or \<open>validateDotLocalUrl\<close> accepts it, the run is the same for
  every value of the \<open>tail\<close> option; it starts with the debug message and the ping of that
  address and calls nothing but the device API and \<open>displayDeviceLogs\<close>. When the ping
  fails, the run ends there, with the \<open>ExpectedError\<close>
  \<open>Cannot access local mode device at address\<close> followed by the address, and while the
  ping is pending the run waits there. When the ping succeeds, the command asks the device
  for its log stream, gives the stream to \<open>displayDeviceLogs\<close> with the system and
  service filters, and ends as \<open>displayDeviceLogs\<close> ends; a log stream that is refused
  or pending ends the run with that outcome before anything is displayed.
\<close>

theorem action_local_device_path:
  assumes "device = uuidOrDevice (normalizeUuidProp env p)"
    and "validateIPAddress env device \<or> validateDotLocalUrl env device"
  shows "action env p (opts\<lparr>tail := t\<rparr>) = action env p opts \<and>
         (\<exists>rest. fst (action env p opts) =
            LogDebug ''Checking we can access device'' # Ping device # rest) \<and>
         set (fst (action env p opts)) \<subseteq>
           {LogDebug ''Checking we can access device'', Ping device, GetLogStream device,
            DisplayDeviceLogs (system_or_false opts) (servicesToDisplay opts)} \<and>
         (\<forall>e. ping env device = Rejected e \<longrightarrow>
            action env p opts =
              ([LogDebug ''Checking we can access device'', Ping device],
               Rejected (ExpectedError (''Cannot access local mode device at address '' @ device)))) \<and>
         (ping env device = Pending \<longrightarrow>
            action env p opts =
              ([LogDebug ''Checking we can access device'', Ping device], Pending)) \<and>
         (\<forall>s. ping env device = Resolved () \<and> getLogStream env device = Resolved s \<longrightarrow>
            action env p opts =
              ([LogDebug ''Checking we can access device'', Ping device, GetLogStream device,
                DisplayDeviceLogs (system_or_false opts) (servicesToDisplay opts)],
               displayDeviceLogs env s (system_or_false opts) (servicesToDisplay opts))) \<and>
         (\<forall>e. ping env device = Resolved () \<and> getLogStream env device = Rejected e \<longrightarrow>
            action env p opts =
              ([LogDebug ''Checking we can access device'', Ping device, GetLogStream device],
               Rejected e)) \<and>
         (ping env device = Resolved () \<and> getLogStream env device = Pending \<longrightarrow>
            action env p opts =
              ([LogDebug ''Checking we can access device'', Ping device, GetLogStream device],
               Pending))"
proof -
  have indep: "action env p (opts\<lparr>tail := t\<rparr>) = action env p opts"
    using assms by (simp add: action_def system_or_false_def servicesToDisplay_def)
  show ?thesis
  proof (cases "ping env device")
    case (Resolved u)
    then show ?thesis using assms indep
      by (cases "getLogStream env device")
         (simp_all add: action_def await_def ping_or_throw_def Let_def)
  next
    case (Rejected e)
    then show ?thesis using assms indep
      by (simp add: action_def await_def ping_or_throw_def Let_def)
  next
    case Pending
    then show ?thesis using assms indep
      by (simp add: action_def await_def ping_or_throw_def Let_def)
  qed
qed

theorem action_local_device_path_witness:
  "validateIPAddress example_env ''192.168.0.31'' \<and>
   action example_env \<lparr>uuidOrDevice = ''192.168.0.31''\<rparr> tail_options =
     action example_env \<lparr>uuidOrDevice = ''192.168.0.31''\<rparr> no_options \<and>
   action example_env \<lparr>uuidOrDevice = ''192.168.0.31''\<rparr> no_options =
     ([LogDebug ''Checking we can access device'', Ping ''192.168.0.31''],
      Rejected (ExpectedError ''Cannot access local mode device at address 192.168.0.31'')) \<and>
   validateDotLocalUrl example_env ''23c73a1.local'' \<and>
   action example_env \<lparr>uuidOrDevice = ''23c73a1.local''\<rparr> no_options =
     ([LogDebug ''Checking we can access device'', Ping ''23c73a1.local'',
       GetLogStream ''23c73a1.local'', DisplayDeviceLogs False None],
      Pending)"
proof -
  have dev: "''192.168.0.31'' =
      uuidOrDevice (normalizeUuidProp example_env \<lparr>uuidOrDevice = ''192.168.0.31''\<rparr>)"
    by (simp add: example_env_def)
  have ip: "validateIPAddress example_env ''192.168.0.31''"
    by (simp add: example_env_def)
  then have loc: "validateIPAddress example_env ''192.168.0.31'' \<or>
      validateDotLocalUrl example_env ''192.168.0.31''"
    by simp
  have silent: "ping example_env ''192.168.0.31'' = Rejected (SystemError ''ETIMEDOUT'' ''connect'')"
    by (simp add: example_env_def)
  have tailed: "no_options\<lparr>tail := Some True\<rparr> = tail_options"
    by (simp add: no_options_def tail_options_def)
  have dev': "''23c73a1.local'' =
      uuidOrDevice (normalizeUuidProp example_env \<lparr>uuidOrDevice = ''23c73a1.local''\<rparr>)"
    by (simp add: example_env_def)
  have dot: "validateDotLocalUrl example_env ''23c73a1.local''"
    by (simp add: example_env_def)
  then have loc': "validateIPAddress example_env ''23c73a1.local'' \<or>
      validateDotLocalUrl example_env ''23c73a1.local''"
    by simp
  have answers: "ping example_env ''23c73a1.local'' = Resolved ()"
      "getLogStream example_env ''23c73a1.local'' = Resolved ()"
    by (simp_all add: example_env_def)
  have shows_logs: "displayDeviceLogs example_env () False None = Pending"
    by (simp add: example_env_def)
  have opts: "system_or_false no_options = False" "servicesToDisplay no_options = None"
    by (simp_all add: option_defs)
  have failing: "action example_env \<lparr>uuidOrDevice = ''192.168.0.31''\<rparr> tail_options =
      action example_env \<lparr>uuidOrDevice = ''192.168.0.31''\<rparr> no_options \<and>
    action example_env \<lparr>uuidOrDevice = ''192.168.0.31''\<rparr> no_options =
      ([LogDebug ''Checking we can access device'', Ping ''192.168.0.31''],
       Rejected (ExpectedError ''Cannot access local mode device at address 192.168.0.31''))"
    using silent
      action_local_device_path [OF dev loc, where opts = no_options and t = "Some True"]
    by (simp add: tailed)
  have streaming: "action example_env \<lparr>uuidOrDevice = ''23c73a1.local''\<rparr> no_options =
      ([LogDebug ''Checking we can access device'', Ping ''23c73a1.local'',
        GetLogStream ''23c73a1.local'', DisplayDeviceLogs False None],
       Pending)"
    using answers
      action_local_device_path [OF dev' loc', where opts = no_options and t = None]
    by (simp add: opts shows_logs)
  show ?thesis using ip dot failing streaming by simp
qed

section \<open>The cloud path\<close>

lemma await_Resolved: "snd s = Resolved x \<Longrightarrow> await s k = (fst s @ fst (k x), snd (k x))"
  by (simp add: await_def)

lemma displayed_append: "displayed (xs @ ys) = displayed xs @ displayed ys"
  by (induction xs rule: displayed.induct) simp_all

lemma history_calls_append: "history_calls (xs @ ys) = history_calls xs @ history_calls ys"
  by (induction xs rule: history_calls.induct) simp_all

lemma displayCloudLog_ok:
  assumes "isSystem m \<or> (\<exists>r. serviceIdToName env (serviceId m) = Resolved r)"
  shows "snd (displayCloudLog env opts m) = Resolved () \<and>
         displayed (fst (displayCloudLog env opts m)) = [m] \<and>
         history_calls (fst (displayCloudLog env opts m)) = []"
proof (cases "isSystem m")
  case True
  then show ?thesis by (simp add: displayCloudLog_system)
next
  case False
  with assms obtain r where "serviceIdToName env (serviceId m) = Resolved r" by blast
  with False show ?thesis by (simp add: displayCloudLog_service)
qed

lemma display_each_ok:
  assumes "\<forall>m \<in> set msgs. isSystem m \<or> (\<exists>r. serviceIdToName env (serviceId m) = Resolved r)"
  shows "snd (display_each env opts msgs) = Resolved () \<and>
         displayed (fst (display_each env opts msgs)) = msgs \<and>
         history_calls (fst (display_each env opts msgs)) = []"
  using assms
proof (induction msgs)
  case Nil
  then show ?case by simp
next
  case (Cons m msgs)
  then have m: "snd (displayCloudLog env opts m) = Resolved ()"
      "displayed (fst (displayCloudLog env opts m)) = [m]"
      "history_calls (fst (displayCloudLog env opts m)) = []"
    using displayCloudLog_ok [of m env opts] by simp_all
  have rest: "snd (display_each env opts msgs) = Resolved ()"
      "displayed (fst (display_each env opts msgs)) = msgs"
      "history_calls (fst (display_each env opts msgs)) = []"
    using Cons by simp_all
  show ?case
    by (simp add: await_Resolved [OF m(1)] displayed_append history_calls_append m rest)
qed

lemma display_each_calls:
  assumes "\<forall>m \<in> set msgs. isSystem m \<or> (\<exists>r. serviceIdToName env (serviceId m) = Resolved r)"
  shows "fst (display_each env opts msgs) =
           concat (map (\<lambda>m. fst (displayCloudLog env opts m)) msgs)"
  using assms
proof (induction msgs)
  case Nil
  then show ?case by simp
next
  case (Cons m msgs)
  then have m: "snd (displayCloudLog env opts m) = Resolved ()"
    using displayCloudLog_ok [of m env opts] by simp
  show ?case using Cons by (simp add: await_Resolved [OF m])
qed

lemma displayCloudLog_rejected:
  "\<not> isSystem m \<Longrightarrow> serviceIdToName env (serviceId m) = Rejected e \<Longrightarrow>
   displayCloudLog env opts m = ([ServiceIdToName (serviceId m)], Rejected e)"
  by (simp add: displayCloudLog_def await_def)

lemma display_each_rejected:
  assumes "\<forall>x \<in> set pre. isSystem x \<or> (\<exists>r. serviceIdToName env (serviceId x) = Resolved r)"
    and "\<not> isSystem m"
    and "serviceIdToName env (serviceId m) = Rejected e"
  shows "snd (display_each env opts (pre @ m # post)) = Rejected e \<and>
         displayed (fst (display_each env opts (pre @ m # post))) = pre \<and>
         history_calls (fst (display_each env opts (pre @ m # post))) = []"
  using assms(1)
proof (induction pre)
  case Nil
  show ?case
    by (simp add: displayCloudLog_rejected [OF assms(2,3)] await_def)
next
  case (Cons x pre)
  then have x: "snd (displayCloudLog env opts x) = Resolved ()"
      "displayed (fst (displayCloudLog env opts x)) = [x]"
      "history_calls (fst (displayCloudLog env opts x)) = []"
    using displayCloudLog_ok [of x env opts] by simp_all
  have rest: "snd (display_each env opts (pre @ m # post)) = Rejected e"
      "displayed (fst (display_each env opts (pre @ m # post))) = pre"
      "history_calls (fst (display_each env opts (pre @ m # post))) = []"
    using Cons by simp_all
  show ?case
    by (simp add: await_Resolved [OF x(1)] displayed_append history_calls_append x rest)
qed

lemma displayCloudLog_pending:
  "\<not> isSystem m \<Longrightarrow> serviceIdToName env (serviceId m) = Pending \<Longrightarrow>
   displayCloudLog env opts m = ([ServiceIdToName (serviceId m)], Pending)"
  by (simp add: displayCloudLog_def await_def)

lemma display_each_pending:
  assumes "\<forall>x \<in> set pre. isSystem x \<or> (\<exists>r. serviceIdToName env (serviceId x) = Resolved r)"
    and "\<not> isSystem m"
    and "serviceIdToName env (serviceId m) = Pending"
  shows "snd (display_each env opts (pre @ m # post)) = Pending \<and>
         displayed (fst (display_each env opts (pre @ m # post))) = pre \<and>
         history_calls (fst (display_each env opts (pre @ m # post))) = []"
  using assms(1)
proof (induction pre)
  case Nil
  show ?case
    by (simp add: displayCloudLog_pending [OF assms(2,3)] await_def)
next
  case (Cons x pre)
  then have x: "snd (displayCloudLog env opts x) = Resolved ()"
      "displayed (fst (displayCloudLog env opts x)) = [x]"
      "history_calls (fst (displayCloudLog env opts x)) = []"
    using displayCloudLog_ok [of x env opts] by simp_all
  have rest: "snd (display_each env opts (pre @ m # post)) = Pending"
      "displayed (fst (display_each env opts (pre @ m # post))) = pre"
      "history_calls (fst (display_each env opts (pre @ m # post))) = []"
    using Cons by simp_all
  show ?case
    by (simp add: await_Resolved [OF x(1)] displayed_append history_calls_append x rest)
qed

text \<open>
  C5, as the code has it. Let \<open>device\<close> be the identifier read, accepted by neither
  validator, with the \<open>tail\<close> option not set. When the login check succeeds, the history
  fetch returns a list and the name resolution of every entry that is not a system entry
  succeeds, the command fetches the history of that device once, gives each returned entry
  to \<open>displayLogObject\<close> once, in the order of the list, and returns; its calls are the
  login check, the fetch and then the calls of \<open>displayCloudLog\<close> on each entry in turn,
  nothing else. When one of those calls is rejected, the command is rejected with the same
  error: after a rejected login check no history is fetched; after a rejected fetch, made
  once, nothing is displayed; after a rejected name resolution the entries before that
  one, and no others, have been displayed, each once and in order. While one of those
  calls is pending, the command waits at it in the same way and does not return.
\<close>

theorem action_cloud_history:
  assumes "device = uuidOrDevice (normalizeUuidProp env p)"
    and "\<not> (validateIPAddress env device \<or> validateDotLocalUrl env device)"
    and "\<not> truthy (tail opts)"
  shows "(checkLoggedIn env = Resolved () \<and> history env device = Resolved msgs \<and>
          (\<forall>m \<in> set msgs.
             isSystem m \<or> (\<exists>r. serviceIdToName env (serviceId m) = Resolved r)) \<longrightarrow>
            snd (action env p opts) = Resolved () \<and>
            history_calls (fst (action env p opts)) = [device] \<and>
            displayed (fst (action env p opts)) = msgs \<and>
            fst (action env p opts) =
              CheckLoggedIn # History device #
                concat (map (\<lambda>m. fst (displayCloudLog env opts m)) msgs)) \<and>
         (\<forall>e. checkLoggedIn env = Rejected e \<longrightarrow>
            action env p opts = ([CheckLoggedIn], Rejected e)) \<and>
         (\<forall>e. checkLoggedIn env = Resolved () \<and> history env device = Rejected e \<longrightarrow>
            action env p opts = ([CheckLoggedIn, History device], Rejected e)) \<and>
         (\<forall>e pre m post.
            checkLoggedIn env = Resolved () \<and> history env device = Resolved (pre @ m # post) \<and>
            (\<forall>x \<in> set pre.
               isSystem x \<or> (\<exists>r. serviceIdToName env (serviceId x) = Resolved r)) \<and>
            \<not> isSystem m \<and> serviceIdToName env (serviceId m) = Rejected e \<longrightarrow>
              snd (action env p opts) = Rejected e \<and>
              history_calls (fst (action env p opts)) = [device] \<and>
              displayed (fst (action env p opts)) = pre) \<and>
         (checkLoggedIn env = Pending \<longrightarrow> action env p opts = ([CheckLoggedIn], Pending)) \<and>
         (checkLoggedIn env = Resolved () \<and> history env device = Pending \<longrightarrow>
            action env p opts = ([CheckLoggedIn, History device], Pending)) \<and>
         (\<forall>pre m post.
            checkLoggedIn env = Resolved () \<and> history env device = Resolved (pre @ m # post) \<and>
            (\<forall>x \<in> set pre.
               isSystem x \<or> (\<exists>r. serviceIdToName env (serviceId x) = Resolved r)) \<and>
            \<not> isSystem m \<and> serviceIdToName env (serviceId m) = Pending \<longrightarrow>
              snd (action env p opts) = Pending \<and>
              history_calls (fst (action env p opts)) = [device] \<and>
              displayed (fst (action env p opts)) = pre)"
proof -
  have fetched: "action env p opts =
      (CheckLoggedIn # History device # fst (display_each env opts ms),
       snd (display_each env opts ms))"
    if "checkLoggedIn env = Resolved ()" and "history env device = Resolved ms" for ms
    using assms that by (simp add: action_def await_def)
  have ok: "snd (action env p opts) = Resolved () \<and>
      history_calls (fst (action env p opts)) = [device] \<and>
      displayed (fst (action env p opts)) = msgs \<and>
      fst (action env p opts) =
        CheckLoggedIn # History device #
          concat (map (\<lambda>m. fst (displayCloudLog env opts m)) msgs)"
    if "checkLoggedIn env = Resolved ()" and "history env device = Resolved msgs"
      and "\<forall>m \<in> set msgs. isSystem m \<or> (\<exists>r. serviceIdToName env (serviceId m) = Resolved r)"
    using fetched [OF that(1,2)] display_each_ok [OF that(3), of opts]
      display_each_calls [OF that(3), of opts]
    by simp
  have login: "action env p opts = ([CheckLoggedIn], Rejected e)"
    if "checkLoggedIn env = Rejected e" for e
    using assms that by (simp add: action_def await_def)
  have fetch: "action env p opts = ([CheckLoggedIn, History device], Rejected e)"
    if "checkLoggedIn env = Resolved ()" and "history env device = Rejected e" for e
    using assms that by (simp add: action_def await_def)
  have names: "snd (action env p opts) = Rejected e \<and>
      history_calls (fst (action env p opts)) = [device] \<and>
      displayed (fst (action env p opts)) = pre"
    if "checkLoggedIn env = Resolved ()" and "history env device = Resolved (pre @ m # post)"
      and "\<forall>x \<in> set pre. isSystem x \<or> (\<exists>r. serviceIdToName env (serviceId x) = Resolved r)"
      and "\<not> isSystem m" and "serviceIdToName env (serviceId m) = Rejected e"
    for e pre m post
    using fetched [OF that(1,2)] display_each_rejected [OF that(3,4,5), of opts post] by simp
  have login_waits: "action env p opts = ([CheckLoggedIn], Pending)"
    if "checkLoggedIn env = Pending"
    using assms that by (simp add: action_def await_def)
  have fetch_waits: "action env p opts = ([CheckLoggedIn, History device], Pending)"
    if "checkLoggedIn env = Resolved ()" and "history env device = Pending"
    using assms that by (simp add: action_def await_def)
  have names_wait: "snd (action env p opts) = Pending \<and>
      history_calls (fst (action env p opts)) = [device] \<and>
      displayed (fst (action env p opts)) = pre"
    if "checkLoggedIn env = Resolved ()" and "history env device = Resolved (pre @ m # post)"
      and "\<forall>x \<in> set pre. isSystem x \<or> (\<exists>r. serviceIdToName env (serviceId x) = Resolved r)"
      and "\<not> isSystem m" and "serviceIdToName env (serviceId m) = Pending"
    for pre m post
    using fetched [OF that(1,2)] display_each_pending [OF that(3,4,5), of opts post] by simp
  have rejections: "(\<forall>e. checkLoggedIn env = Rejected e \<longrightarrow>
        action env p opts = ([CheckLoggedIn], Rejected e)) \<and>
      (\<forall>e. checkLoggedIn env = Resolved () \<and> history env device = Rejected e \<longrightarrow>
        action env p opts = ([CheckLoggedIn, History device], Rejected e)) \<and>
      (\<forall>e pre m post.
        checkLoggedIn env = Resolved () \<and> history env device = Resolved (pre @ m # post) \<and>
        (\<forall>x \<in> set pre.
           isSystem x \<or> (\<exists>r. serviceIdToName env (serviceId x) = Resolved r)) \<and>
        \<not> isSystem m \<and> serviceIdToName env (serviceId m) = Rejected e \<longrightarrow>
          snd (action env p opts) = Rejected e \<and>
          history_calls (fst (action env p opts)) = [device] \<and>
          displayed (fst (action env p opts)) = pre)"
    using login fetch names by blast
  have waits: "(checkLoggedIn env = Pending \<longrightarrow> action env p opts = ([CheckLoggedIn], Pending)) \<and>
      (checkLoggedIn env = Resolved () \<and> history env device = Pending \<longrightarrow>
        action env p opts = ([CheckLoggedIn, History device], Pending)) \<and>
      (\<forall>pre m post.
        checkLoggedIn env = Resolved () \<and> history env device = Resolved (pre @ m # post) \<and>
        (\<forall>x \<in> set pre.
           isSystem x \<or> (\<exists>r. serviceIdToName env (serviceId x) = Resolved r)) \<and>
        \<not> isSystem m \<and> serviceIdToName env (serviceId m) = Pending \<longrightarrow>
          snd (action env p opts) = Pending \<and>
          history_calls (fst (action env p opts)) = [device] \<and>
          displayed (fst (action env p opts)) = pre)"
    using login_waits fetch_waits names_wait by blast
  show ?thesis using ok rejections waits by blast
qed

theorem action_cloud_history_witness:
  "snd (action example_env \<lparr>uuidOrDevice = ''23c73a1''\<rparr> no_options) = Resolved () \<and>
   history_calls (fst (action example_env \<lparr>uuidOrDevice = ''23c73a1''\<rparr> no_options))
     = [''23c73a1''] \<and>
   displayed (fst (action example_env \<lparr>uuidOrDevice = ''23c73a1''\<rparr> no_options))
     = [line_main, line_system, line_unknown] \<and>
   action history_down_env \<lparr>uuidOrDevice = ''23c73a1''\<rparr> no_options =
     ([CheckLoggedIn, History ''23c73a1''], Rejected (Error ''Request error'')) \<and>
   snd (action names_down_env \<lparr>uuidOrDevice = ''23c73a1''\<rparr> no_options)
     = Rejected (Error ''Request error'') \<and>
   displayed (fst (action names_down_env \<lparr>uuidOrDevice = ''23c73a1''\<rparr> no_options))
     = [line_main, line_system] \<and>
   action history_stalled_env \<lparr>uuidOrDevice = ''23c73a1''\<rparr> no_options =
     ([CheckLoggedIn, History ''23c73a1''], Pending)"
proof -
  have untailed: "\<not> truthy (tail no_options)"
    by (simp add: no_options_def)
  have dev: "''23c73a1'' =
      uuidOrDevice (normalizeUuidProp example_env \<lparr>uuidOrDevice = ''23c73a1''\<rparr>)"
    and cloud: "\<not> (validateIPAddress example_env ''23c73a1'' \<or>
      validateDotLocalUrl example_env ''23c73a1'')"
    by (simp_all add: example_env_def)
  have good: "checkLoggedIn example_env = Resolved () \<and>
      history example_env ''23c73a1'' = Resolved [line_main, line_system, line_unknown] \<and>
      (\<forall>m \<in> set [line_main, line_system, line_unknown].
         isSystem m \<or> (\<exists>r. serviceIdToName example_env (serviceId m) = Resolved r))"
    by (simp add: example_env_def)
  have first: "snd (action example_env \<lparr>uuidOrDevice = ''23c73a1''\<rparr> no_options) = Resolved () \<and>
      history_calls (fst (action example_env \<lparr>uuidOrDevice = ''23c73a1''\<rparr> no_options))
        = [''23c73a1''] \<and>
      displayed (fst (action example_env \<lparr>uuidOrDevice = ''23c73a1''\<rparr> no_options))
        = [line_main, line_system, line_unknown]"
    using good
      action_cloud_history [OF dev cloud untailed,
        where msgs = "[line_main, line_system, line_unknown]"]
    by blast
  have dev_h: "''23c73a1'' =
      uuidOrDevice (normalizeUuidProp history_down_env \<lparr>uuidOrDevice = ''23c73a1''\<rparr>)"
    and cloud_h: "\<not> (validateIPAddress history_down_env ''23c73a1'' \<or>
      validateDotLocalUrl history_down_env ''23c73a1'')"
    by (simp_all add: history_down_env_def example_env_def)
  have down: "checkLoggedIn history_down_env = Resolved () \<and>
      history history_down_env ''23c73a1'' = Rejected (Error ''Request error'')"
    by (simp add: history_down_env_def example_env_def)
  have second: "action history_down_env \<lparr>uuidOrDevice = ''23c73a1''\<rparr> no_options =
      ([CheckLoggedIn, History ''23c73a1''], Rejected (Error ''Request error''))"
    using down action_cloud_history [OF dev_h cloud_h untailed] by blast
  have dev_n: "''23c73a1'' =
      uuidOrDevice (normalizeUuidProp names_down_env \<lparr>uuidOrDevice = ''23c73a1''\<rparr>)"
    and cloud_n: "\<not> (validateIPAddress names_down_env ''23c73a1'' \<or>
      validateDotLocalUrl names_down_env ''23c73a1'')"
    by (simp_all add: names_down_env_def example_env_def)
  have nameless: "checkLoggedIn names_down_env = Resolved () \<and>
      history names_down_env ''23c73a1''
        = Resolved ([line_main, line_system] @ line_unknown # []) \<and>
      (\<forall>x \<in> set [line_main, line_system].
         isSystem x \<or> (\<exists>r. serviceIdToName names_down_env (serviceId x) = Resolved r)) \<and>
      \<not> isSystem line_unknown \<and>
      serviceIdToName names_down_env (serviceId line_unknown) = Rejected (Error ''Request error'')"
    by (simp add: names_down_env_def example_env_def line_examples)
  have third: "snd (action names_down_env \<lparr>uuidOrDevice = ''23c73a1''\<rparr> no_options)
        = Rejected (Error ''Request error'') \<and>
      displayed (fst (action names_down_env \<lparr>uuidOrDevice = ''23c73a1''\<rparr> no_options))
        = [line_main, line_system]"
    using nameless action_cloud_history [OF dev_n cloud_n untailed] by blast
  have dev_s: "''23c73a1'' =
      uuidOrDevice (normalizeUuidProp history_stalled_env \<lparr>uuidOrDevice = ''23c73a1''\<rparr>)"
    and cloud_s: "\<not> (validateIPAddress history_stalled_env ''23c73a1'' \<or>
      validateDotLocalUrl history_stalled_env ''23c73a1'')"
    by (simp_all add: history_stalled_env_def example_env_def)
  have stalled: "checkLoggedIn history_stalled_env = Resolved () \<and>
      history history_stalled_env ''23c73a1'' = Pending"
    by (simp add: history_stalled_env_def example_env_def)
  have fourth: "action history_stalled_env \<lparr>uuidOrDevice = ''23c73a1''\<rparr> no_options =
      ([CheckLoggedIn, History ''23c73a1''], Pending)"
    using stalled action_cloud_history [OF dev_s cloud_s untailed] by blast
  show ?thesis using first second third fourth by simp
qed

text \<open>Logged out, the command fails at the login check and fetches no history.\<close>

theorem action_cloud_history_logged_out:
  "action logged_out_env \<lparr>uuidOrDevice = ''23c73a1''\<rparr> no_options =
     ([CheckLoggedIn], Rejected (ExpectedError ''Login required'')) \<and>
   history_calls (fst (action logged_out_env \<lparr>uuidOrDevice = ''23c73a1''\<rparr> no_options)) = []"
  by (simp add: action_def await_def logged_out_env_def example_env_def no_options_def)

lemma foldl_on_event_settled:
  "p \<noteq> Pending \<Longrightarrow> snd (foldl on_event (calls, p) emitted) = p"
proof (induction emitted arbitrary: calls)
  case Nil
  then show ?case by simp
next
  case (Cons ev emitted)
  then show ?case by (cases ev; cases p) simp_all
qed

lemma foldl_on_event_pending:
  "snd (foldl on_event (calls, Pending) emitted) \<noteq> Resolved () \<and>
   ((\<exists>e. snd (foldl on_event (calls, Pending) emitted) = Rejected e) \<longleftrightarrow>
    (\<exists>e. StreamError e \<in> set emitted))"
proof (induction emitted arbitrary: calls)
  case Nil
  then show ?case by simp
next
  case (Cons ev emitted)
  show ?case
  proof (cases ev)
    case (Line m)
    then show ?thesis using Cons [of "calls @ [LineHandler m]"] by auto
  next
    case (StreamError e)
    then show ?thesis using foldl_on_event_settled [of "Rejected e" calls emitted] by auto
  qed
qed

text \<open>
  C3. Let \<open>device\<close> be the identifier read, accepted by neither validator, with the
  \<open>tail\<close> option set, the login check passed and the subscription made. Whatever the
  stream has emitted so far, the outcome of the command is the state of the promise it
  awaits; that promise is never fulfilled; and it is rejected exactly when one of the
  emitted events is an error event, staying pending otherwise.
\<close>

theorem action_cloud_tail_never_resolves:
  assumes "device = uuidOrDevice (normalizeUuidProp env p)"
    and "\<not> (validateIPAddress env device \<or> validateDotLocalUrl env device)"
    and "truthy (tail opts)"
    and "checkLoggedIn env = Resolved ()"
    and "subscribe env device 100 = Resolved emitted"
  shows "snd (action env p opts) = snd (tail_promise emitted) \<and>
         snd (tail_promise emitted) \<noteq> Resolved () \<and>
         ((\<exists>e. snd (tail_promise emitted) = Rejected e) \<longleftrightarrow>
          (\<exists>e. StreamError e \<in> set emitted)) \<and>
         (snd (tail_promise emitted) = Pending \<longleftrightarrow>
          \<not> (\<exists>e. StreamError e \<in> set emitted))"
proof -
  have same: "snd (action env p opts) = snd (tail_promise emitted)"
    using assms by (simp add: action_def await_def)
  have never: "snd (tail_promise emitted) \<noteq> Resolved ()"
    and rejected: "(\<exists>e. snd (tail_promise emitted) = Rejected e) \<longleftrightarrow>
      (\<exists>e. StreamError e \<in> set emitted)"
    using foldl_on_event_pending [of "[StreamOn ''line'', StreamOn ''error'']" emitted]
    by (simp_all add: tail_promise_def)
  have pending: "snd (tail_promise emitted) = Pending \<longleftrightarrow>
      \<not> (\<exists>e. StreamError e \<in> set emitted)"
    using never rejected by (cases "snd (tail_promise emitted)") auto
  show ?thesis using same never rejected pending by blast
qed

theorem action_cloud_tail_never_resolves_witness:
  "snd (action example_env \<lparr>uuidOrDevice = ''23c73a1''\<rparr> tail_options)
     = Rejected (Error ''socket hang up'') \<and>
   snd (tail_promise [Line line_main, StreamError (Error ''socket hang up''), Line line_system])
     \<noteq> Resolved ()"
proof -
  have dev: "''23c73a1'' =
      uuidOrDevice (normalizeUuidProp example_env \<lparr>uuidOrDevice = ''23c73a1''\<rparr>)"
    by (simp add: example_env_def)
  have cloud: "\<not> (validateIPAddress example_env ''23c73a1'' \<or>
      validateDotLocalUrl example_env ''23c73a1'')"
    by (simp add: example_env_def)
  have tailed: "truthy (tail tail_options)"
    by (simp add: tail_options_def)
  have login: "checkLoggedIn example_env = Resolved ()"
    by (simp add: example_env_def)
  have sub: "subscribe example_env ''23c73a1'' 100 =
      Resolved [Line line_main, StreamError (Error ''socket hang up''), Line line_system]"
    by (simp add: example_env_def)
  have state: "snd (tail_promise
      [Line line_main, StreamError (Error ''socket hang up''), Line line_system])
        = Rejected (Error ''socket hang up'')"
    by (simp add: tail_promise_def)
  show ?thesis
    using action_cloud_tail_never_resolves [OF dev cloud tailed login sub] state by simp
qed

end
